theory Spec2Isabelle
  imports Main "HOL-Library.AList"
begin

section \<open>The activity registry of the Mergington High School API (src/app.py)\<close>

text \<open>
  The program keeps one global dictionary \<^verbatim>\<open>activities\<close>, from activity names to
  activity dictionaries, and mutates the participants list of one entry per request.
  A Python dictionary iterates in insertion order, and the report and the CSV export
  depend on that order, so the registry is an association list: \<open>map_of\<close> is the lookup
  \<^verbatim>\<open>activities[name]\<close> and \<^verbatim>\<open>name in activities\<close>, and \<open>AList.update\<close>
  rewrites the entry of a key where it stands. The keys of a dictionary are distinct; the
  results below do not need that, since lookup and update both act on the first entry of
  a key. Python integers are \<open>int\<close>, strings are \<open>string\<close> (only their equality and
  concatenation matter here), an \<^verbatim>\<open>HTTPException\<close> is a value, and every handler
  takes the registry and returns its outcome together with the registry it leaves behind.
\<close>

subsection \<open>Data model\<close>

record activity =
  description :: string
  schedule :: string
  max_participants :: int
  participants :: "string list"

type_synonym registry = "(string \<times> activity) list"

datatype http_exception = HTTPException (status_code: int) (detail: string)

datatype message_response = Message (message: string)

text \<open>The value of the module-level variable \<^verbatim>\<open>activities\<close> when the process starts.\<close>

definition activities :: registry where
  "activities =
    [(''Chess Club'',
      \<lparr>description = ''Learn strategies and compete in chess tournaments'',
       schedule = ''Fridays, 3:30 PM - 5:00 PM'',
       max_participants = 12,
       participants = [''michael@mergington.edu'', ''daniel@mergington.edu'']\<rparr>),
     (''Programming Class'',
      \<lparr>description = ''Learn programming fundamentals and build software projects'',
       schedule = ''Tuesdays and Thursdays, 3:30 PM - 4:30 PM'',
       max_participants = 20,
       participants = [''emma@mergington.edu'', ''sophia@mergington.edu'']\<rparr>),
     (''Gym Class'',
      \<lparr>description = ''Physical education and sports activities'',
       schedule = ''Mondays, Wednesdays, Fridays, 2:00 PM - 3:00 PM'',
       max_participants = 30,
       participants = [''john@mergington.edu'', ''olivia@mergington.edu'']\<rparr>),
     (''Soccer Team'',
      \<lparr>description = ''Join the school soccer team and compete in matches'',
       schedule = ''Tuesdays and Thursdays, 4:00 PM - 5:30 PM'',
       max_participants = 22,
       participants = [''liam@mergington.edu'', ''noah@mergington.edu'']\<rparr>),
     (''Basketball Team'',
      \<lparr>description = ''Practice and play basketball with the school team'',
       schedule = ''Wednesdays and Fridays, 3:30 PM - 5:00 PM'',
       max_participants = 15,
       participants = [''ava@mergington.edu'', ''mia@mergington.edu'']\<rparr>),
     (''Art Club'',
      \<lparr>description = ''Explore your creativity through painting and drawing'',
       schedule = ''Thursdays, 3:30 PM - 5:00 PM'',
       max_participants = 15,
       participants = [''amelia@mergington.edu'', ''harper@mergington.edu'']\<rparr>),
     (''Drama Club'',
      \<lparr>description = ''Act, direct, and produce plays and performances'',
       schedule = ''Mondays and Wednesdays, 4:00 PM - 5:30 PM'',
       max_participants = 20,
       participants = [''ella@mergington.edu'', ''scarlett@mergington.edu'']\<rparr>),
     (''Math Club'',
      \<lparr>description = ''Solve challenging problems and participate in math competitions'',
       schedule = ''Tuesdays, 3:30 PM - 4:30 PM'',
       max_participants = 10,
       participants = [''james@mergington.edu'', ''benjamin@mergington.edu'']\<rparr>),
     (''Debate Team'',
      \<lparr>description = ''Develop public speaking and argumentation skills'',
       schedule = ''Fridays, 4:00 PM - 5:30 PM'',
       max_participants = 12,
       participants = [''charlotte@mergington.edu'', ''henry@mergington.edu'']\<rparr>)]"

subsection \<open>The errors the handlers raise\<close>

text \<open>
  The specification calls the three errors NotFound, AlreadyRegistered and NotRegistered;
  in the source each is an \<^verbatim>\<open>HTTPException\<close> with the status code and detail below.
\<close>

definition NotFound :: http_exception where
  "NotFound = HTTPException 404 ''Activity not found''"

definition AlreadyRegistered :: http_exception where
  "AlreadyRegistered = HTTPException 400 ''Student is already signed up''"

definition NotRegistered :: http_exception where
  "NotRegistered = HTTPException 400 ''Student is not signed up for this activity''"

subsection \<open>Signup and unregister\<close>

text \<open>
  \<^verbatim>\<open>signup_for_activity(activity_name, email)\<close>: the two checks come first and raise
  before anything is written; \<^verbatim>\<open>list.append\<close> adds at the end.
\<close>

definition signup_for_activity ::
  "registry \<Rightarrow> string \<Rightarrow> string \<Rightarrow> (http_exception + message_response) \<times> registry" where
  "signup_for_activity reg activity_name email =
     (case map_of reg activity_name of
        None \<Rightarrow> (Inl NotFound, reg)
      | Some act \<Rightarrow>
          if email \<in> set (participants act) then (Inl AlreadyRegistered, reg)
          else (Inr (Message (''Signed up '' @ email @ '' for '' @ activity_name)),
                AList.update activity_name
                  (act\<lparr>participants := participants act @ [email]\<rparr>) reg))"

text \<open>
  \<^verbatim>\<open>unregister_from_activity(activity_name, email)\<close>: \<^verbatim>\<open>list.remove\<close> deletes the
  first occurrence, which is \<open>remove1\<close>.
\<close>

definition unregister_from_activity ::
  "registry \<Rightarrow> string \<Rightarrow> string \<Rightarrow> (http_exception + message_response) \<times> registry" where
  "unregister_from_activity reg activity_name email =
     (case map_of reg activity_name of
        None \<Rightarrow> (Inl NotFound, reg)
      | Some act \<Rightarrow>
          if email \<notin> set (participants act) then (Inl NotRegistered, reg)
          else (Inr (Message (''Unregistered '' @ email @ '' from '' @ activity_name)),
                AList.update activity_name
                  (act\<lparr>participants := remove1 email (participants act)\<rparr>) reg))"

text \<open>
  The server answers one request after another on the same global registry; a request
  that raises leaves the registry as it found it and the next one goes on from there.
\<close>

datatype request = Signup string string | Unregister string string

fun handle :: "registry \<Rightarrow> request \<Rightarrow> registry" where
  "handle reg (Signup activity_name email) = snd (signup_for_activity reg activity_name email)"
| "handle reg (Unregister activity_name email) =
     snd (unregister_from_activity reg activity_name email)"

fun serve :: "registry \<Rightarrow> request list \<Rightarrow> registry" where
  "serve reg [] = reg"
| "serve reg (r # rs) = serve (handle reg r) rs"

text \<open>The invariant of the data model: no participants list holds an email twice.\<close>

definition no_duplicates :: "registry \<Rightarrow> bool" where
  "no_duplicates reg = list_all (\<lambda>(name, details). distinct (participants details)) reg"

text \<open>
  A state the server reaches from the initial one: eight more students sign up for the
  Math Club, which then has as many participants as its \<^verbatim>\<open>max_participants\<close>.
\<close>

definition math_club_full :: registry where
  "math_club_full = serve activities
     [Signup ''Math Club'' ''s1@mergington.edu'', Signup ''Math Club'' ''s2@mergington.edu'',
      Signup ''Math Club'' ''s3@mergington.edu'', Signup ''Math Club'' ''s4@mergington.edu'',
      Signup ''Math Club'' ''s5@mergington.edu'', Signup ''Math Club'' ''s6@mergington.edu'',
      Signup ''Math Club'' ''s7@mergington.edu'', Signup ''Math Club'' ''s8@mergington.edu'']"

subsection \<open>Reports\<close>

record report_entry =
  entry_activity :: string
  entry_participants_count :: int
  entry_max_participants :: int
  entry_participants :: "string list"

record summary =
  total_activities :: int
  total_participants :: int
  unique_users :: int

record report =
  report_summary :: summary
  report_activities :: "report_entry list"

text \<open>The loop of \<^verbatim>\<open>get_reports\<close> that appends one entry per item of the dictionary.\<close>

fun report_loop :: "registry \<Rightarrow> report_entry list \<Rightarrow> report_entry list" where
  "report_loop [] report = report"
| "report_loop ((name, details) # rest) report =
     report_loop rest
       (report @ [\<lparr>entry_activity = name,
                   entry_participants_count = int (length (participants details)),
                   entry_max_participants = max_participants details,
                   entry_participants = participants details\<rparr>])"

definition get_reports :: "registry \<Rightarrow> report" where
  "get_reports reg =
     (let report = report_loop reg [];
          total_activities = int (length reg);
          total_participants = sum_list (map (\<lambda>a. int (length (participants a))) (map snd reg));
          unique_users = set (concat (map (\<lambda>a. participants a) (map snd reg)))
      in \<lparr>report_summary =
            \<lparr>total_activities = total_activities,
             total_participants = total_participants,
             unique_users = int (card unique_users)\<rparr>,
          report_activities = report\<rparr>)"

text \<open>
  The activities whose participants list holds a given email; an email "appears in more
  than one activity" when this list has more than one element.
\<close>

definition activities_of :: "registry \<Rightarrow> string \<Rightarrow> string list" where
  "activities_of reg email =
     map fst (filter (\<lambda>(name, details). email \<in> set (participants details)) reg)"

subsection \<open>Export\<close>

text \<open>
  \<^verbatim>\<open>", ".join(xs)\<close> of Python.
\<close>

fun join :: "string \<Rightarrow> string list \<Rightarrow> string" where
  "join sep [] = []"
| "join sep [x] = x"
| "join sep (x # y # ys) = x @ sep @ join sep (y # ys)"

text \<open>\<^verbatim>\<open>str(n)\<close> of a Python integer, used by the f-strings of the PDF branch.\<close>

fun str_nat :: "nat \<Rightarrow> string" where
  "str_nat n =
     (if n < 10 then [char_of (48 + n)]
      else str_nat (n div 10) @ [char_of (48 + n mod 10)])"

declare str_nat.simps [simp del]

definition str_int :: "int \<Rightarrow> string" where
  "str_int i = (if i < 0 then ''-'' @ str_nat (nat (- i)) else str_nat (nat i))"

text \<open>
  A field handed to \<^verbatim>\<open>csv.writer.writerow\<close> is a string or an integer. The CSV
  document is the list of rows written, in the order written; how the standard library's
  writer quotes and terminates a row is not part of this program.
\<close>

datatype csv_field = Str string | Num int

text \<open>
  The calls the PDF branch makes on the \<^verbatim>\<open>FPDF\<close> object, in order. A cell carries
  its width, height, text, the \<^verbatim>\<open>ln\<close> flag and the alignment (empty when the call
  leaves it out).
\<close>

datatype pdf_call =
    Add_page
  | Set_font string int
  | Cell int int string bool string
  | Ln int
  | Multi_cell int int string

text \<open>
  The \<^verbatim>\<open>fpdf\<close> module is not part of this program, and what it does depends on the
  package that provides it. It is a parameter of the export: \<open>None\<close> when the import
  failed (\<^verbatim>\<open>FPDF_AVAILABLE\<close> is false), and otherwise the function that says what
  running the calls on a new \<^verbatim>\<open>FPDF\<close> object and then evaluating
  \<^verbatim>\<open>pdf.output(dest='S').encode('latin1')\<close> gives: the bytes, or \<open>None\<close> when one
  of these calls raises (the last one does when \<^verbatim>\<open>output\<close> returns a byte array,
  which has no \<^verbatim>\<open>encode\<close>). Such an exception is no \<^verbatim>\<open>HTTPException\<close> and the
  handler does not catch it.
\<close>

type_synonym fpdf_module = "(pdf_call list \<Rightarrow> string option) option"

datatype export_exception = Http_exception http_exception | Fpdf_exception

datatype export_body = Csv "csv_field list list" | Pdf string

record streaming_response =
  body :: export_body
  media_type :: string
  content_disposition :: string

fun csv_loop :: "report_entry list \<Rightarrow> csv_field list list \<Rightarrow> csv_field list list" where
  "csv_loop [] output = output"
| "csv_loop (r # rs) output =
     csv_loop rs
       (output @ [[Str (entry_activity r),
                   Num (entry_participants_count r),
                   Num (entry_max_participants r),
                   Str (join '', '' (entry_participants r))]])"

fun pdf_loop :: "report_entry list \<Rightarrow> pdf_call list \<Rightarrow> pdf_call list" where
  "pdf_loop [] pdf = pdf"
| "pdf_loop (r # rs) pdf =
     pdf_loop rs
       (pdf @ [Cell 0 10 (''Actividad: '' @ entry_activity r) True [],
               Cell 0 10 (''Participantes: '' @ str_int (entry_participants_count r)
                            @ '' / '' @ str_int (entry_max_participants r)) True [],
               Multi_cell 0 10 (''Lista: '' @ join '', '' (entry_participants r)),
               Ln 5])"

text \<open>
  \<^verbatim>\<open>export_reports(format)\<close>; a request without the parameter has \<^verbatim>\<open>format = "csv"\<close>.
  The characters outside ASCII in the source's literals are written by their code points.
\<close>

definition export_reports ::
  "fpdf_module \<Rightarrow> registry \<Rightarrow> string \<Rightarrow> export_exception + streaming_response" where
  "export_reports fpdf reg format =
     (let report = report_activities (get_reports reg) in
      if format = ''csv'' then
        Inr \<lparr>body = Csv (csv_loop report
                      [[Str ''Activity'', Str ''Participants Count'',
                        Str ''Max Participants'', Str ''Participants'']]),
             media_type = ''text/csv'',
             content_disposition = ''attachment; filename=report.csv''\<rparr>
      else if format = ''pdf'' then
        (case fpdf of
           None \<Rightarrow>
             Inl (Http_exception (HTTPException 500
                   (''FPDF no est'' @ [CHR 0xE1] @ '' instalado. Instala con ''
                     @ [CHR 0x27] @ ''pip install fpdf'' @ [CHR 0x27] @ ''.'')))
         | Some run_fpdf \<Rightarrow>
             (case run_fpdf (pdf_loop report
                     [Add_page, Set_font ''Arial'' 12,
                      Cell 200 10 (''Reporte de Participaci'' @ [CHR 0xF3] @ ''n'')
                        True ''C'',
                      Ln 10]) of
                None \<Rightarrow> Inl Fpdf_exception
              | Some pdf_output \<Rightarrow>
                  Inr \<lparr>body = Pdf pdf_output,
                       media_type = ''application/pdf'',
                       content_disposition = ''attachment; filename=report.pdf''\<rparr>))
      else
        Inl (Http_exception (HTTPException 400
              (''Formato no soportado. Usa '' @ [CHR 0x27] @ ''csv'' @ [CHR 0x27]
                @ '' o '' @ [CHR 0x27] @ ''pdf'' @ [CHR 0x27] @ ''.''))))"

section \<open>Properties\<close>

subsection \<open>Association lists under update\<close>

lemma update_keeps_all:
  "list_all P al \<Longrightarrow> P (k, v) \<Longrightarrow> list_all P (AList.update k v al)"
  by (induction al) auto

lemma map_of_list_all:
  "map_of al k = Some v \<Longrightarrow> list_all P al \<Longrightarrow> P (k, v)"
  by (induction al) (auto split: if_splits)

lemma update_filter_other:
  "filter (\<lambda>(name, details). name \<noteq> k) (AList.update k v al) =
   filter (\<lambda>(name, details). name \<noteq> k) al"
  by (induction al) auto

lemma update_map_proj:
  "map_of al k = Some v' \<Longrightarrow> f v = f v' \<Longrightarrow>
   map (\<lambda>(name, details). (name, f details)) (AList.update k v al) =
   map (\<lambda>(name, details). (name, f details)) al"
  by (induction al) (auto split: if_splits)

subsection \<open>Concrete states used below\<close>

lemma chess_club_lookup:
  "map_of activities ''Chess Club'' =
     Some \<lparr>description = ''Learn strategies and compete in chess tournaments'',
           schedule = ''Fridays, 3:30 PM - 5:00 PM'',
           max_participants = 12,
           participants = [''michael@mergington.edu'', ''daniel@mergington.edu'']\<rparr>"
  by (simp add: activities_def)

lemma math_club_full_lookup:
  "map_of math_club_full ''Math Club'' =
     Some \<lparr>description = ''Solve challenging problems and participate in math competitions'',
           schedule = ''Tuesdays, 3:30 PM - 4:30 PM'',
           max_participants = 10,
           participants = [''james@mergington.edu'', ''benjamin@mergington.edu'',
             ''s1@mergington.edu'', ''s2@mergington.edu'', ''s3@mergington.edu'',
             ''s4@mergington.edu'', ''s5@mergington.edu'', ''s6@mergington.edu'',
             ''s7@mergington.edu'', ''s8@mergington.edu'']\<rparr>"
  by (simp add: math_club_full_def activities_def signup_for_activity_def)

subsection \<open>Signup\<close>

text \<open>
  Claim C1. If the activity name is in the registry and the email is not among the
  activity's participants, signup succeeds with its confirmation message and the
  activity's participants list becomes the old list with the email added at the end.
  Nothing is assumed about \<open>max_participants\<close>: the length of the list is never
  compared with it, so the signup is accepted also when the list is already full or
  over-full.
\<close>

theorem signup_no_capacity_check:
  assumes "map_of reg activity_name = Some act"
    and "email \<notin> set (participants act)"
  shows "signup_for_activity reg activity_name email =
           (Inr (Message (''Signed up '' @ email @ '' for '' @ activity_name)),
            AList.update activity_name
              (act\<lparr>participants := participants act @ [email]\<rparr>) reg)
       \<and> map_of (snd (signup_for_activity reg activity_name email)) activity_name
           = Some (act\<lparr>participants := participants act @ [email]\<rparr>)"
  using assms by (simp add: signup_for_activity_def update_conv')

text \<open>
  The Math Club allows 10 participants and has 10; the eleventh signup goes through.
\<close>

theorem signup_no_capacity_check_witness:
  "map_of math_club_full ''Math Club'' =
     Some \<lparr>description = ''Solve challenging problems and participate in math competitions'',
           schedule = ''Tuesdays, 3:30 PM - 4:30 PM'',
           max_participants = 10,
           participants = [''james@mergington.edu'', ''benjamin@mergington.edu'',
             ''s1@mergington.edu'', ''s2@mergington.edu'', ''s3@mergington.edu'',
             ''s4@mergington.edu'', ''s5@mergington.edu'', ''s6@mergington.edu'',
             ''s7@mergington.edu'', ''s8@mergington.edu'']\<rparr>
   \<and> fst (signup_for_activity math_club_full ''Math Club'' ''s9@mergington.edu'') =
        Inr (Message ''Signed up s9@mergington.edu for Math Club'')
   \<and> map_of (snd (signup_for_activity math_club_full ''Math Club'' ''s9@mergington.edu''))
        ''Math Club'' =
     Some \<lparr>description = ''Solve challenging problems and participate in math competitions'',
           schedule = ''Tuesdays, 3:30 PM - 4:30 PM'',
           max_participants = 10,
           participants = [''james@mergington.edu'', ''benjamin@mergington.edu'',
             ''s1@mergington.edu'', ''s2@mergington.edu'', ''s3@mergington.edu'',
             ''s4@mergington.edu'', ''s5@mergington.edu'', ''s6@mergington.edu'',
             ''s7@mergington.edu'', ''s8@mergington.edu'', ''s9@mergington.edu'']\<rparr>"
proof -
  have fresh: "''s9@mergington.edu'' \<notin> set (participants
         \<lparr>description = ''Solve challenging problems and participate in math competitions'',
           schedule = ''Tuesdays, 3:30 PM - 4:30 PM'',
           max_participants = 10,
           participants = [''james@mergington.edu'', ''benjamin@mergington.edu'',
             ''s1@mergington.edu'', ''s2@mergington.edu'', ''s3@mergington.edu'',
             ''s4@mergington.edu'', ''s5@mergington.edu'', ''s6@mergington.edu'',
             ''s7@mergington.edu'', ''s8@mergington.edu'']\<rparr>)"
    by simp
  show ?thesis
    using math_club_full_lookup signup_no_capacity_check [OF math_club_full_lookup fresh]
    by (simp add: update_conv')
qed

text \<open>
  Claim C3. If the activity name is in the registry and the email is already among the
  activity's participants, signup raises AlreadyRegistered, whose status code is 400, and
  the registry it leaves is the registry it found.
\<close>

theorem signup_already_registered:
  assumes "map_of reg activity_name = Some act"
    and "email \<in> set (participants act)"
  shows "signup_for_activity reg activity_name email = (Inl AlreadyRegistered, reg)
       \<and> status_code AlreadyRegistered = 400"
  using assms by (simp add: signup_for_activity_def AlreadyRegistered_def)

theorem signup_already_registered_witness:
  "signup_for_activity activities ''Chess Club'' ''daniel@mergington.edu'' =
     (Inl (HTTPException 400 ''Student is already signed up''), activities)"
proof -
  have "''daniel@mergington.edu'' \<in> set [''michael@mergington.edu'', ''daniel@mergington.edu'']"
    by simp
  then show ?thesis
    using signup_already_registered [OF chess_club_lookup, of "''daniel@mergington.edu''"]
    by (simp add: AlreadyRegistered_def)
qed

subsection \<open>Unregister\<close>

text \<open>
  Claim C4. If the activity name is in the registry and the email is not among the
  activity's participants, unregister raises NotRegistered, whose status code is 400, and
  the registry it leaves is the registry it found.
\<close>

theorem unregister_not_registered:
  assumes "map_of reg activity_name = Some act"
    and "email \<notin> set (participants act)"
  shows "unregister_from_activity reg activity_name email = (Inl NotRegistered, reg)
       \<and> status_code NotRegistered = 400"
  using assms by (simp add: unregister_from_activity_def NotRegistered_def)

theorem unregister_not_registered_witness:
  "unregister_from_activity activities ''Chess Club'' ''emma@mergington.edu'' =
     (Inl (HTTPException 400 ''Student is not signed up for this activity''), activities)"
proof -
  have "''emma@mergington.edu'' \<notin> set [''michael@mergington.edu'', ''daniel@mergington.edu'']"
    by simp
  then show ?thesis
    using unregister_not_registered [OF chess_club_lookup, of "''emma@mergington.edu''"]
    by (simp add: NotRegistered_def)
qed

text \<open>
  Claim C5. If the activity name is not in the registry, then whatever the email is,
  signup and unregister both raise NotFound, whose status code is 404, and leave the
  registry as it was.
\<close>

theorem unknown_activity_not_found:
  assumes "map_of reg activity_name = None"
  shows "signup_for_activity reg activity_name email = (Inl NotFound, reg)
       \<and> unregister_from_activity reg activity_name email = (Inl NotFound, reg)
       \<and> status_code NotFound = 404"
  using assms
  by (simp add: signup_for_activity_def unregister_from_activity_def NotFound_def)

theorem unknown_activity_not_found_witness:
  "signup_for_activity activities ''Knitting Club'' ''michael@mergington.edu'' =
     (Inl (HTTPException 404 ''Activity not found''), activities)
   \<and> unregister_from_activity activities ''Knitting Club'' ''michael@mergington.edu'' =
     (Inl (HTTPException 404 ''Activity not found''), activities)"
proof -
  have "map_of activities ''Knitting Club'' = None"
    by (simp add: activities_def)
  from unknown_activity_not_found [OF this, of "''michael@mergington.edu''"]
  show ?thesis by (simp add: NotFound_def)
qed

subsection \<open>Signup followed by unregister\<close>

text \<open>
  Claim C2. If the activity name is in the registry and the email is not among the
  activity's participants, then signup with that email followed by unregister with the
  same email on the same activity both succeed, and afterwards the activity's
  participants list is what it was before the signup; indeed the whole registry is.
\<close>

theorem signup_unregister_roundtrip:
  assumes "map_of reg activity_name = Some act"
    and "email \<notin> set (participants act)"
  shows "fst (signup_for_activity reg activity_name email) =
           Inr (Message (''Signed up '' @ email @ '' for '' @ activity_name))
       \<and> fst (unregister_from_activity
                (snd (signup_for_activity reg activity_name email)) activity_name email) =
           Inr (Message (''Unregistered '' @ email @ '' from '' @ activity_name))
       \<and> map_of (snd (unregister_from_activity
                     (snd (signup_for_activity reg activity_name email)) activity_name email))
            activity_name
           = Some act
       \<and> snd (unregister_from_activity
                (snd (signup_for_activity reg activity_name email)) activity_name email) = reg"
  using assms
  by (simp add: signup_for_activity_def unregister_from_activity_def update_conv'
        remove1_append update_triv)

theorem signup_unregister_roundtrip_witness:
  "map_of (snd (signup_for_activity activities ''Chess Club'' ''new@mergington.edu''))
      ''Chess Club'' =
     Some \<lparr>description = ''Learn strategies and compete in chess tournaments'',
           schedule = ''Fridays, 3:30 PM - 5:00 PM'',
           max_participants = 12,
           participants = [''michael@mergington.edu'', ''daniel@mergington.edu'',
                           ''new@mergington.edu'']\<rparr>
   \<and> map_of (snd (unregister_from_activity
                (snd (signup_for_activity activities ''Chess Club'' ''new@mergington.edu''))
                ''Chess Club'' ''new@mergington.edu''))
      ''Chess Club'' =
     Some \<lparr>description = ''Learn strategies and compete in chess tournaments'',
           schedule = ''Fridays, 3:30 PM - 5:00 PM'',
           max_participants = 12,
           participants = [''michael@mergington.edu'', ''daniel@mergington.edu'']\<rparr>
   \<and> snd (unregister_from_activity
            (snd (signup_for_activity activities ''Chess Club'' ''new@mergington.edu''))
            ''Chess Club'' ''new@mergington.edu'') = activities"
proof -
  have fresh:
    "''new@mergington.edu'' \<notin> set (participants
        \<lparr>description = ''Learn strategies and compete in chess tournaments'',
         schedule = ''Fridays, 3:30 PM - 5:00 PM'',
         max_participants = 12,
         participants = [''michael@mergington.edu'', ''daniel@mergington.edu'']\<rparr>)"
    by simp
  have grown:
    "map_of (snd (signup_for_activity activities ''Chess Club'' ''new@mergington.edu''))
        ''Chess Club'' =
       Some \<lparr>description = ''Learn strategies and compete in chess tournaments'',
             schedule = ''Fridays, 3:30 PM - 5:00 PM'',
             max_participants = 12,
             participants = [''michael@mergington.edu'', ''daniel@mergington.edu'',
                             ''new@mergington.edu'']\<rparr>"
    by (simp add: signup_for_activity_def chess_club_lookup update_conv')
  show ?thesis
    using grown signup_unregister_roundtrip [OF chess_club_lookup fresh]
    by (simp add: chess_club_lookup)
qed

subsection \<open>Frame\<close>

lemma signup_success:
  "signup_for_activity reg A email = (Inr m, reg') \<Longrightarrow>
   \<exists>act. map_of reg A = Some act \<and>
     reg' = AList.update A (act\<lparr>participants := participants act @ [email]\<rparr>) reg"
  by (auto simp: signup_for_activity_def split: option.splits if_splits)

lemma unregister_success:
  "unregister_from_activity reg A email = (Inr m, reg') \<Longrightarrow>
   \<exists>act. map_of reg A = Some act \<and>
     reg' = AList.update A (act\<lparr>participants := remove1 email (participants act)\<rparr>) reg"
  by (auto simp: unregister_from_activity_def split: option.splits if_splits)

text \<open>
  Claim C10. When a signup or an unregister on the activity named \<open>A\<close> succeeds and
  leaves the registry \<open>reg'\<close>, the entries under every other name are the same, in the
  same order, as before, and the names, descriptions, schedules and \<open>max_participants\<close>
  of all entries, that of \<open>A\<close> included, are the same as before: no entry is added or
  dropped, and only the participants list of \<open>A\<close> can differ.
\<close>

theorem success_frame:
  assumes "signup_for_activity reg A email = (Inr m, reg')
         \<or> unregister_from_activity reg A email = (Inr m, reg')"
  shows "filter (\<lambda>(name, details). name \<noteq> A) reg'
           = filter (\<lambda>(name, details). name \<noteq> A) reg
       \<and> map (\<lambda>(name, details).
                (name, description details, schedule details, max_participants details)) reg'
           = map (\<lambda>(name, details).
                (name, description details, schedule details, max_participants details)) reg"
proof -
  from assms obtain act ps where look: "map_of reg A = Some act"
    and upd: "reg' = AList.update A (act\<lparr>participants := ps\<rparr>) reg"
    using signup_success unregister_success by blast
  have "filter (\<lambda>(name, details). name \<noteq> A) reg'
          = filter (\<lambda>(name, details). name \<noteq> A) reg"
    unfolding upd by (rule update_filter_other)
  moreover have "map (\<lambda>(name, details).
                (name, description details, schedule details, max_participants details)) reg'
         = map (\<lambda>(name, details).
                (name, description details, schedule details, max_participants details)) reg"
    unfolding upd by (rule update_map_proj [OF look]) simp
  ultimately show ?thesis by simp
qed

theorem success_frame_witness:
  "(\<exists>m reg'. signup_for_activity activities ''Chess Club'' ''new@mergington.edu'' = (Inr m, reg')
      \<and> reg' \<noteq> activities
      \<and> filter (\<lambda>(name, details). name \<noteq> ''Chess Club'') reg'
          = filter (\<lambda>(name, details). name \<noteq> ''Chess Club'') activities
      \<and> map (\<lambda>(name, details).
                (name, description details, schedule details, max_participants details)) reg'
          = map (\<lambda>(name, details).
                (name, description details, schedule details, max_participants details))
              activities)
   \<and> (\<exists>m reg'. unregister_from_activity activities ''Chess Club'' ''daniel@mergington.edu''
          = (Inr m, reg')
      \<and> reg' \<noteq> activities
      \<and> filter (\<lambda>(name, details). name \<noteq> ''Chess Club'') reg'
          = filter (\<lambda>(name, details). name \<noteq> ''Chess Club'') activities
      \<and> map (\<lambda>(name, details).
                (name, description details, schedule details, max_participants details)) reg'
          = map (\<lambda>(name, details).
                (name, description details, schedule details, max_participants details))
              activities)"
proof -
  obtain m1 r1 where s: "signup_for_activity activities ''Chess Club'' ''new@mergington.edu''
      = (Inr m1, r1)" and s': "r1 \<noteq> activities"
    by (simp add: signup_for_activity_def activities_def)
  obtain m2 r2 where u: "unregister_from_activity activities ''Chess Club''
      ''daniel@mergington.edu'' = (Inr m2, r2)" and u': "r2 \<noteq> activities"
    by (simp add: unregister_from_activity_def activities_def)
  have f1: "signup_for_activity activities ''Chess Club'' ''new@mergington.edu'' = (Inr m1, r1)
      \<or> unregister_from_activity activities ''Chess Club'' ''new@mergington.edu'' = (Inr m1, r1)"
    using s by simp
  have f2: "signup_for_activity activities ''Chess Club'' ''daniel@mergington.edu'' = (Inr m2, r2)
      \<or> unregister_from_activity activities ''Chess Club'' ''daniel@mergington.edu''
          = (Inr m2, r2)"
    using u by simp
  show ?thesis
    using s s' u u' success_frame [OF f1] success_frame [OF f2] by blast
qed

subsection \<open>The invariant\<close>

lemma no_duplicates_signup:
  "no_duplicates reg \<Longrightarrow> no_duplicates (snd (signup_for_activity reg n e))"
  unfolding no_duplicates_def signup_for_activity_def
  by (auto split: option.splits intro!: update_keeps_all dest: map_of_list_all)

lemma no_duplicates_unregister:
  "no_duplicates reg \<Longrightarrow> no_duplicates (snd (unregister_from_activity reg n e))"
  unfolding no_duplicates_def unregister_from_activity_def
  by (auto split: option.splits intro!: update_keeps_all dest: map_of_list_all)

lemma no_duplicates_handle: "no_duplicates reg \<Longrightarrow> no_duplicates (handle reg r)"
  by (cases r) (simp_all add: no_duplicates_signup no_duplicates_unregister)

lemma no_duplicates_serve: "no_duplicates reg \<Longrightarrow> no_duplicates (serve reg rs)"
  by (induction rs arbitrary: reg) (simp_all add: no_duplicates_handle)

lemma no_duplicates_activities: "no_duplicates activities"
  by (simp add: no_duplicates_def activities_def)

text \<open>
  Claim C8. Starting from the initial hard-coded registry, after any sequence of signup
  and unregister requests, failed ones included, no activity's participants list holds
  the same email twice.
\<close>

theorem no_duplicates_reachable: "no_duplicates (serve activities rs)"
  by (rule no_duplicates_serve [OF no_duplicates_activities])

subsection \<open>Reports\<close>

lemma report_loop_map:
  "report_loop reg report = report @ map (\<lambda>(name, details).
       \<lparr>entry_activity = name,
        entry_participants_count = int (length (participants details)),
        entry_max_participants = max_participants details,
        entry_participants = participants details\<rparr>) reg"
  by (induction reg report rule: report_loop.induct) simp_all

lemma sum_list_lengths:
  "sum_list (map (\<lambda>a. int (length (f a))) xs) = int (length (concat (map f xs)))"
  by (induction xs) simp_all

lemma summary_counts:
  "unique_users (report_summary (get_reports reg)) =
     int (card (set (concat (map (\<lambda>a. participants a) (map snd reg)))))"
  "total_participants (report_summary (get_reports reg)) =
     int (length (concat (map (\<lambda>a. participants a) (map snd reg))))"
  by (simp_all add: get_reports_def sum_list_lengths del: set_concat map_map)

lemma unique_users_le_total:
  "unique_users (report_summary (get_reports reg))
     \<le> total_participants (report_summary (get_reports reg))"
  unfolding summary_counts by (simp only: of_nat_le_iff card_length)

lemma unique_users_eq_total_iff:
  "unique_users (report_summary (get_reports reg))
     = total_participants (report_summary (get_reports reg))
   \<longleftrightarrow> distinct (concat (map (\<lambda>a. participants a) (map snd reg)))"
  unfolding summary_counts using card_distinct distinct_card by (auto simp only: of_nat_eq_iff)

text \<open>
  Claim C6. For every registry, the \<open>total_participants\<close> of the report's summary is the
  sum of the \<open>participants_count\<close> fields of the report's entries; each entry's count is
  the length of the participants list it carries, and the entries carry the participants
  lists of the registry's activities in the registry's order.
\<close>

theorem report_total_participants:
  "total_participants (report_summary (get_reports reg)) =
     sum_list (map entry_participants_count (report_activities (get_reports reg)))
   \<and> map entry_participants_count (report_activities (get_reports reg)) =
       map (\<lambda>r. int (length (entry_participants r))) (report_activities (get_reports reg))
   \<and> map entry_participants (report_activities (get_reports reg)) =
       map (\<lambda>(name, details). participants details) reg"
  by (simp add: get_reports_def report_loop_map comp_def case_prod_unfold)

lemma distinct_concat_count:
  assumes "\<forall>ys \<in> set xss. distinct ys"
  shows "distinct (concat xss) \<longleftrightarrow> (\<forall>x. length (filter (\<lambda>ys. x \<in> set ys) xss) \<le> 1)"
  using assms
proof (induction xss)
  case Nil
  then show ?case by simp
next
  case (Cons ys xss)
  have tail: "distinct (concat xss) \<longleftrightarrow> (\<forall>x. length (filter (\<lambda>zs. x \<in> set zs) xss) \<le> 1)"
    using Cons by simp
  have dys: "distinct ys" using Cons.prems by simp
  have apart: "(set ys \<inter> set (concat xss) = {}) \<longleftrightarrow>
        (\<forall>x \<in> set ys. filter (\<lambda>zs. x \<in> set zs) xss = [])"
    by (auto simp: filter_empty_conv)
  show ?case
  proof
    assume "distinct (concat (ys # xss))"
    then have t: "\<forall>x. length (filter (\<lambda>zs. x \<in> set zs) xss) \<le> 1"
      and e: "\<forall>x \<in> set ys. filter (\<lambda>zs. x \<in> set zs) xss = []"
      using tail apart by auto
    show "\<forall>x. length (filter (\<lambda>zs. x \<in> set zs) (ys # xss)) \<le> 1"
      using t e by auto
  next
    assume a: "\<forall>x. length (filter (\<lambda>zs. x \<in> set zs) (ys # xss)) \<le> 1"
    have t: "\<forall>x. length (filter (\<lambda>zs. x \<in> set zs) xss) \<le> 1"
    proof
      fix x
      from a have "length (filter (\<lambda>zs. x \<in> set zs) (ys # xss)) \<le> 1" ..
      then show "length (filter (\<lambda>zs. x \<in> set zs) xss) \<le> 1"
        by (simp split: if_splits)
    qed
    have e: "\<forall>x \<in> set ys. filter (\<lambda>zs. x \<in> set zs) xss = []"
    proof
      fix x assume "x \<in> set ys"
      moreover from a have "length (filter (\<lambda>zs. x \<in> set zs) (ys # xss)) \<le> 1" ..
      ultimately show "filter (\<lambda>zs. x \<in> set zs) xss = []" by simp
    qed
    show "distinct (concat (ys # xss))"
      using dys t e tail apart by simp
  qed
qed

lemma activities_of_length:
  "length (activities_of reg email) =
     length (filter (\<lambda>ys. email \<in> set ys) (map (\<lambda>a. participants a) (map snd reg)))"
  by (simp add: activities_of_def filter_map comp_def case_prod_unfold)

text \<open>
  Claim C7. For every registry in which no participants list holds an email twice (the
  invariant of the data model, which every state the server reaches has), the
  \<open>unique_users\<close> of the report's summary is at most its \<open>total_participants\<close>, and
  the two are equal exactly when no email is in the participants lists of more than one
  activity. The inequality needs no invariant (\<open>unique_users_le_total\<close>); the
  equivalence does, since without it the counts also differ when one list repeats an email
  (\<open>unique_users_eq_total_iff\<close>).
\<close>

theorem report_unique_users:
  assumes "no_duplicates reg"
  shows "unique_users (report_summary (get_reports reg))
           \<le> total_participants (report_summary (get_reports reg))
       \<and> (unique_users (report_summary (get_reports reg))
            = total_participants (report_summary (get_reports reg))
          \<longleftrightarrow> (\<forall>email. length (activities_of reg email) \<le> 1))"
proof -
  let ?ps = "map (\<lambda>a. participants a) (map snd reg)"
  have each: "\<forall>ys \<in> set ?ps. distinct ys"
    using assms by (auto simp: no_duplicates_def list_all_iff)
  have "card (set (concat ?ps)) = length (concat ?ps) \<longleftrightarrow> distinct (concat ?ps)"
    using card_distinct distinct_card by blast
  also have "\<dots> \<longleftrightarrow> (\<forall>email. length (activities_of reg email) \<le> 1)"
    using distinct_concat_count [OF each] by (simp only: activities_of_length)
  finally have eq: "card (set (concat ?ps)) = length (concat ?ps)
      \<longleftrightarrow> (\<forall>email. length (activities_of reg email) \<le> 1)" .
  have le: "card (set (concat ?ps)) \<le> length (concat ?ps)" by (rule card_length)
  show ?thesis
    unfolding summary_counts using eq le
    by (simp only: of_nat_le_iff of_nat_eq_iff simp_thms)
qed

text \<open>
  In the initial registry the two counts are both 18 and no email is shared; once Emma,
  who is in the Programming Class, also joins the Chess Club, there are 19 participants
  and still 18 users.
\<close>

theorem report_unique_users_witness:
  "unique_users (report_summary (get_reports activities)) = 18
   \<and> total_participants (report_summary (get_reports activities)) = 18
   \<and> (\<forall>email. length (activities_of activities email) \<le> 1)
   \<and> unique_users (report_summary (get_reports
        (handle activities (Signup ''Chess Club'' ''emma@mergington.edu'')))) = 18
   \<and> total_participants (report_summary (get_reports
        (handle activities (Signup ''Chess Club'' ''emma@mergington.edu'')))) = 19
   \<and> \<not> (\<forall>email. length (activities_of
        (handle activities (Signup ''Chess Club'' ''emma@mergington.edu'')) email) \<le> 1)"
proof -
  let ?reg = "handle activities (Signup ''Chess Club'' ''emma@mergington.edu'')"
  have u0: "unique_users (report_summary (get_reports activities)) = 18"
    by (simp add: get_reports_def activities_def)
  have t0: "total_participants (report_summary (get_reports activities)) = 18"
    by (simp add: get_reports_def activities_def)
  have u1: "unique_users (report_summary (get_reports ?reg)) = 18"
    by (simp add: get_reports_def activities_def signup_for_activity_def)
  have t1: "total_participants (report_summary (get_reports ?reg)) = 19"
    by (simp add: get_reports_def activities_def signup_for_activity_def)
  have inv1: "no_duplicates ?reg"
    by (rule no_duplicates_handle [OF no_duplicates_activities])
  show ?thesis
    using u0 t0 u1 t1
      report_unique_users [OF no_duplicates_activities] report_unique_users [OF inv1]
    by simp
qed

subsection \<open>CSV export\<close>

lemma csv_loop_map:
  "csv_loop rs rows = rows @ map (\<lambda>r.
       [Str (entry_activity r), Num (entry_participants_count r),
        Num (entry_max_participants r), Str (join '', '' (entry_participants r))]) rs"
  by (induction rs rows rule: csv_loop.induct) simp_all

text \<open>
  What \<open>join\<close> computes, without \<open>join\<close>: nothing for no strings, and otherwise the
  first string followed by each further string with the separator before it.
\<close>

lemma join_Cons: "join sep (p # ps) = p @ concat (map (\<lambda>q. sep @ q) ps)"
  by (induction sep "p # ps" arbitrary: p ps rule: join.induct) simp_all

lemma join_closed:
  "join sep xs = (case xs of [] \<Rightarrow> [] | p # ps \<Rightarrow> p @ concat (map (\<lambda>q. sep @ q) ps))"
  by (cases xs) (simp_all add: join_Cons)

lemma join_length:
  "length (join sep xs) = sum_list (map length xs) + length sep * (length xs - 1)"
  by (cases xs) (simp_all add: join_Cons length_concat comp_def sum_list_addf sum_list_triv)

text \<open>
  Claim C9. For every registry, and whatever the PDF library is or does, the CSV export
  succeeds and writes the header row \<open>Activity, Participants Count, Max Participants,
  Participants\<close> and after it one row per activity, in the order of the registry; a row
  holds the activity's name, the number of its participants, its \<open>max_participants\<close>
  and, as its last field, its participants joined by \<open>'', ''\<close>: the empty string when
  there are none, and otherwise the first participant followed by each further one with
  \<open>'', ''\<close> before it.
\<close>

theorem export_csv_rows:
  "export_reports fpdf reg ''csv'' =
     Inr \<lparr>body = Csv ([Str ''Activity'', Str ''Participants Count'',
                       Str ''Max Participants'', Str ''Participants'']
                      # map (\<lambda>(name, details).
                              [Str name, Num (int (length (participants details))),
                               Num (max_participants details),
                               Str (case participants details of
                                      [] \<Rightarrow> []
                                    | p # ps \<Rightarrow> p @ concat (map (\<lambda>q. '', '' @ q) ps))]) reg),
          media_type = ''text/csv'',
          content_disposition = ''attachment; filename=report.csv''\<rparr>"
  unfolding export_reports_def get_reports_def
  by (simp add: report_loop_map csv_loop_map join_closed comp_def case_prod_unfold)

text \<open>
  The example of the specification: after the signup of \<open>new@mergington.edu\<close> for the
  Chess Club, the first row after the header of the CSV export is that of the Chess Club
  with three participants.
\<close>

lemma export_csv_example:
  "\<exists>r rows. export_reports None
       (handle activities (Signup ''Chess Club'' ''new@mergington.edu'')) ''csv'' = Inr r
     \<and> body r = Csv rows
     \<and> rows ! 1 = [Str ''Chess Club'', Num 3, Num 12,
          Str ''michael@mergington.edu, daniel@mergington.edu, new@mergington.edu'']"
  by (simp add: export_reports_def get_reports_def activities_def signup_for_activity_def)

text \<open>
  The PDF branch: without the module the handler raises its error with status 500; with
  it, the answer is the library's, and an exception of the library comes out as it is.
\<close>

lemma export_pdf_unavailable:
  "\<exists>d. export_reports None reg ''pdf'' = Inl (Http_exception (HTTPException 500 d))"
  by (simp add: export_reports_def)

lemma export_pdf_library_raises:
  "export_reports (Some (\<lambda>calls. None)) reg ''pdf'' = Inl Fpdf_exception"
  by (simp add: export_reports_def)

lemma export_unsupported_format:
  "format \<noteq> ''csv'' \<Longrightarrow> format \<noteq> ''pdf'' \<Longrightarrow>
   \<exists>d. export_reports fpdf reg format = Inl (Http_exception (HTTPException 400 d))"
  by (simp add: export_reports_def)

end
